theory Spec2Isabelle
  imports Main "HOL-Library.Word"
begin

section \<open>The identity-function builder of \<^verbatim>\<open>src/llvmcalltest.cpp\<close>\<close>

text \<open>
  \<^verbatim>\<open>MakeIdentityFunction\<close> builds one IR function through the public interface of the
  compiler-infrastructure library. The model below is the object graph that this
  interface exposes: types, modules, functions, basic blocks and instructions, each
  kind of object in a store of its own, addressed by handles. A handle is a natural
  number; \<open>0\<close> is the null pointer and handle \<open>p > 0\<close> designates the object at
  position \<open>p - 1\<close> of its store. Allocation appends to a store, so a new object never
  takes the address of a live one; nothing in the modelled routine frees an object.
  Memory is unbounded: exhaustion of the allocator is not modelled.
\<close>

subsection \<open>Handles and stores\<close>

type_synonym Type_ptr = nat
type_synonym Module_ptr = nat
type_synonym Function_ptr = nat
type_synonym BasicBlock_ptr = nat

definition deref :: "'a list \<Rightarrow> nat \<Rightarrow> 'a option" where
  "deref store p = (if 0 < p \<and> p \<le> length store then Some (store ! (p - 1)) else None)"

definition alloc :: "'a list \<Rightarrow> 'a \<Rightarrow> nat \<times> 'a list" where
  "alloc store obj = (Suc (length store), store @ [obj])"

definition update :: "'a list \<Rightarrow> nat \<Rightarrow> 'a \<Rightarrow> 'a list" where
  "update store p obj = store[p - 1 := obj]"

fun index_of :: "'a \<Rightarrow> 'a list \<Rightarrow> nat option" where
  "index_of x [] = None"
| "index_of x (y # ys) = (if x = y then Some 0 else map_option Suc (index_of x ys))"

subsection \<open>The IR object model\<close>

text \<open>
  The routine only passes the compilation context on to the constructors of the
  library, and the library keeps two things in it that the routine's calls change: the
  table of uniqued types, and the set of the modules that were created in the context
  (the constructor of a module records the module there). The model has the one
  context the routine uses; its type table and its set of modules are the fields
  \<open>Types\<close> and \<open>OwnedModules\<close> of the state, and the handle below is its identity.
\<close>

datatype LLVMContext = LLVMContext nat

text \<open>
  Types are uniqued: asking twice for the same derived type gives the same handle.
  A pointer type has a pointee and an address space (an \<^verbatim>\<open>unsigned\<close>); a function
  type has a result type, parameter types and the varargs flag.
\<close>

datatype TypeNode =
    VoidTy
  | LabelTy
  | FloatTy
  | DoubleTy
  | IntegerTy nat
  | PointerTy Type_ptr "32 word"
  | FunctionTy Type_ptr "Type_ptr list" bool
  | StructTy "Type_ptr list"
  | ArrayTy Type_ptr nat

datatype LinkageTypes =
    ExternalLinkage
  | AvailableExternallyLinkage
  | LinkOnceAnyLinkage
  | LinkOnceODRLinkage
  | WeakAnyLinkage
  | WeakODRLinkage
  | AppendingLinkage
  | InternalLinkage
  | PrivateLinkage
  | ExternalWeakLinkage
  | CommonLinkage

text \<open>A formal parameter belongs to one function and has a position in its list.\<close>

datatype Argument = Argument (Arg_Ty: Type_ptr) (Arg_Parent: Function_ptr) (ArgNo: nat)

datatype Value =
    ArgumentV Argument
  | ConstantPointerNull Type_ptr
  | UndefValue Type_ptr

datatype Instruction =
    ReturnInst "Value option"
  | UnreachableInst

record Module =
  ModuleID :: string
  M_Context :: LLVMContext
  FunctionList :: "Function_ptr list"

record Function =
  F_Name :: string
  F_Linkage :: LinkageTypes
  F_Ty :: Type_ptr
  F_ValueTy :: Type_ptr
  F_Parent :: Module_ptr
  F_Args :: "Argument list"
  F_Blocks :: "BasicBlock_ptr list"

record BasicBlock =
  BB_Name :: string
  BB_Context :: LLVMContext
  BB_Parent :: Function_ptr
  InstList :: "Instruction list"

text \<open>
  Modelled from the spec: the global \<^verbatim>\<open>jl_LLVMContext\<close> is only declared
  (\<^verbatim>\<open>extern\<close>) in the source file and defined elsewhere. The spec calls it a
  process-wide resource that "must already be initialized by the caller before
  invocation" and may be "absent"; the state holds it as an option, \<open>None\<close> while it
  is absent.
\<close>

record LLVMState =
  jl_LLVMContext :: "LLVMContext option"
  Types :: "TypeNode list"
  OwnedModules :: "Module_ptr set"
  Modules :: "Module list"
  Functions :: "Function list"
  BasicBlocks :: "BasicBlock list"

text \<open>
  The library has no error values on these paths: misuse is a null dereference, a read
  through a pointer that designates no object of the expected class, or the use of a
  context that does not exist. Each is undefined behaviour or a process abort; the
  model makes each a fault that ends the run.
\<close>

datatype fault = NullDereference | InvalidPointer | ContextAbsent

subsection \<open>The library operations the routine calls\<close>

text \<open>\<^verbatim>\<open>Type::get\<close>-style uniquing: the handle of the node if it exists, a new one if not.\<close>

definition intern_type :: "TypeNode \<Rightarrow> LLVMState \<Rightarrow> Type_ptr \<times> LLVMState" where
  "intern_type node s =
     (case index_of node (Types s) of
        Some i \<Rightarrow> (Suc i, s)
      | None \<Rightarrow> (case alloc (Types s) node of (p, ts) \<Rightarrow> (p, s\<lparr>Types := ts\<rparr>)))"

text \<open>\<^verbatim>\<open>AnyTy->getElementType()\<close>: a member call through the pointer \<open>AnyTy\<close>.\<close>

definition getElementType :: "Type_ptr \<Rightarrow> LLVMState \<Rightarrow> fault + Type_ptr" where
  "getElementType PT s =
     (if PT = 0 then Inl NullDereference
      else case deref (Types s) PT of
             Some (PointerTy ElTy AS) \<Rightarrow> Inr ElTy
           | _ \<Rightarrow> Inl InvalidPointer)"

definition PointerType_get :: "Type_ptr \<Rightarrow> 32 word \<Rightarrow> LLVMState \<Rightarrow> Type_ptr \<times> LLVMState" where
  "PointerType_get ElTy AS s = intern_type (PointerTy ElTy AS) s"

definition FunctionType_get ::
  "Type_ptr \<Rightarrow> Type_ptr list \<Rightarrow> bool \<Rightarrow> LLVMState \<Rightarrow> Type_ptr \<times> LLVMState" where
  "FunctionType_get Result Params isVarArg s = intern_type (FunctionTy Result Params isVarArg) s"

text \<open>
  \<^verbatim>\<open>new llvm::Module(ID, C)\<close>: an empty module in context \<open>C\<close>; the constructor
  records the module in the context.
\<close>

definition new_Module ::
  "string \<Rightarrow> LLVMContext option \<Rightarrow> LLVMState \<Rightarrow> fault + (Module_ptr \<times> LLVMState)" where
  "new_Module ID C s =
     (case C of
        None \<Rightarrow> Inl ContextAbsent
      | Some ctx \<Rightarrow>
          (case alloc (Modules s) \<lparr>ModuleID = ID, M_Context = ctx, FunctionList = []\<rparr> of
             (M, ms) \<Rightarrow> Inr (M, s\<lparr>Modules := ms, OwnedModules := insert M (OwnedModules s)\<rparr>)))"

text \<open>
  \<^verbatim>\<open>Function::Create(Ty, Linkage, N, M)\<close>: a function without body, one formal
  parameter per parameter type, appended to the function list of \<open>M\<close> unless \<open>M\<close> is
  null. A function is a value whose type is the pointer, in address space 0, to its
  function type; the constructor requests that type. The library renames a function whose name is already taken in \<open>M\<close>, and a
  block whose name is taken in its function; the model keeps the name as given, which
  is what the library does in a module, or a function, that is still empty.
\<close>

definition make_args :: "Function_ptr \<Rightarrow> Type_ptr list \<Rightarrow> Argument list" where
  "make_args F Params = map (\<lambda>(i, T). Argument T F i) (zip [0 ..< length Params] Params)"

definition Function_Create ::
  "Type_ptr \<Rightarrow> LinkageTypes \<Rightarrow> string \<Rightarrow> Module_ptr \<Rightarrow> LLVMState
     \<Rightarrow> fault + (Function_ptr \<times> LLVMState)" where
  "Function_Create Ty Linkage N M s =
     (if Ty = 0 then Inl NullDereference
      else case deref (Types s) Ty of
        Some (FunctionTy Result Params isVarArg) \<Rightarrow>
          (case intern_type (PointerTy Ty 0) s of (PTy, s0) \<Rightarrow>
          (let F = Suc (length (Functions s0));
               f = \<lparr>F_Name = N, F_Linkage = Linkage, F_Ty = Ty, F_ValueTy = PTy, F_Parent = M,
                    F_Args = make_args F Params, F_Blocks = []\<rparr>;
               s1 = s0\<lparr>Functions := snd (alloc (Functions s0) f)\<rparr>
           in if M = 0 then Inr (F, s1)
              else case deref (Modules s1) M of
                     None \<Rightarrow> Inl InvalidPointer
                   | Some m \<Rightarrow>
                       Inr (F, s1\<lparr>Modules :=
                              update (Modules s1) M (m\<lparr>FunctionList := FunctionList m @ [F]\<rparr>)\<rparr>)))
      | _ \<Rightarrow> Inl InvalidPointer)"

text \<open>
  \<^verbatim>\<open>BasicBlock::Create(C, N, Parent)\<close>: an empty block, appended to the block list of
  \<open>Parent\<close> unless \<open>Parent\<close> is null.
\<close>

definition BasicBlock_Create ::
  "LLVMContext option \<Rightarrow> string \<Rightarrow> Function_ptr \<Rightarrow> LLVMState
     \<Rightarrow> fault + (BasicBlock_ptr \<times> LLVMState)" where
  "BasicBlock_Create C N Parent s =
     (case C of
        None \<Rightarrow> Inl ContextAbsent
      | Some ctx \<Rightarrow>
          (let BB = Suc (length (BasicBlocks s));
               bb = \<lparr>BB_Name = N, BB_Context = ctx, BB_Parent = Parent, InstList = []\<rparr>;
               s1 = s\<lparr>BasicBlocks := snd (alloc (BasicBlocks s) bb)\<rparr>
           in if Parent = 0 then Inr (BB, s1)
              else case deref (Functions s1) Parent of
                     None \<Rightarrow> Inl InvalidPointer
                   | Some f \<Rightarrow>
                       Inr (BB, s1\<lparr>Functions :=
                              update (Functions s1) Parent (f\<lparr>F_Blocks := F_Blocks f @ [BB]\<rparr>)\<rparr>)))"

text \<open>
  \<^verbatim>\<open>IRBuilder<> Builder(BB)\<close>: a builder whose insertion point is the end of \<open>BB\<close>;
  every instruction it creates is appended to that block.
\<close>

datatype IRBuilder = IRBuilder (GetInsertBlock: BasicBlock_ptr)

definition CreateRet :: "IRBuilder \<Rightarrow> Value \<Rightarrow> LLVMState \<Rightarrow> fault + (Instruction \<times> LLVMState)" where
  "CreateRet Builder V s =
     (let BB = GetInsertBlock Builder
      in if BB = 0 then Inl NullDereference
         else case deref (BasicBlocks s) BB of
                None \<Rightarrow> Inl InvalidPointer
              | Some bb \<Rightarrow>
                  Inr (ReturnInst (Some V),
                       s\<lparr>BasicBlocks :=
                           update (BasicBlocks s) BB (bb\<lparr>InstList := InstList bb @ [ReturnInst (Some V)]\<rparr>)\<rparr>))"

text \<open>\<^verbatim>\<open>&*F->arg_begin()\<close>: the first formal parameter; there must be one.\<close>

definition arg_begin :: "Function_ptr \<Rightarrow> LLVMState \<Rightarrow> fault + Argument" where
  "arg_begin F s =
     (if F = 0 then Inl NullDereference
      else case deref (Functions s) F of
             None \<Rightarrow> Inl InvalidPointer
           | Some f \<Rightarrow> (case F_Args f of [] \<Rightarrow> Inl InvalidPointer | A # _ \<Rightarrow> Inr A))"

subsection \<open>The routine\<close>

text \<open>
  The address-space number \<^verbatim>\<open>AddressSpace::Tracked\<close> comes from the header
  \<^verbatim>\<open>codegen_shared.h\<close>; it is the parameter \<open>Tracked\<close> of the model, and every result
  below holds for each value of it. The statements of the routine, in source order:
  the tracked pointer type, the module, the function type and the function, the block,
  the return instruction.
\<close>

definition MakeIdentityFunction ::
  "32 word \<Rightarrow> Type_ptr \<Rightarrow> LLVMState \<Rightarrow> fault + (Function_ptr \<times> LLVMState)" where
  "MakeIdentityFunction Tracked AnyTy s =
     (case getElementType AnyTy s of Inl e \<Rightarrow> Inl e | Inr ElTy \<Rightarrow>
      (case PointerType_get ElTy Tracked s of (TrackedTy, s1) \<Rightarrow>
      (case new_Module ''shadow'' (jl_LLVMContext s1) s1 of Inl e \<Rightarrow> Inl e | Inr (M, s2) \<Rightarrow>
      (case FunctionType_get TrackedTy [TrackedTy] False s2 of (FTy, s3) \<Rightarrow>
      (case Function_Create FTy ExternalLinkage ''identity'' M s3 of Inl e \<Rightarrow> Inl e | Inr (F, s4) \<Rightarrow>
      (case BasicBlock_Create (jl_LLVMContext s4) ''top'' F s4 of Inl e \<Rightarrow> Inl e | Inr (BB, s5) \<Rightarrow>
      (let Builder = IRBuilder BB in
      (case arg_begin F s5 of Inl e \<Rightarrow> Inl e | Inr A \<Rightarrow>
      (case CreateRet Builder (ArgumentV A) s5 of Inl e \<Rightarrow> Inl e | Inr (R, s6) \<Rightarrow>
         Inr (F, s6))))))))))"

subsection \<open>The shape of a function\<close>

text \<open>
  Two functions at different addresses never have equal records: each names its own
  module, its own blocks, and its formal parameters name the function itself. The
  shape of a function is what is left when these addresses are read through: name,
  linkage, function type, parameter types, and for each block its name and its
  instructions, where a use of the function's own \<open>i\<close>-th parameter is \<open>Param i\<close>.
\<close>

datatype ValueShape = Param nat | Foreign Value

datatype InstShape = RetShape "ValueShape option" | UnreachableShape

fun value_shape :: "Function_ptr \<Rightarrow> Value \<Rightarrow> ValueShape" where
  "value_shape F (ArgumentV A) = (if Arg_Parent A = F then Param (ArgNo A) else Foreign (ArgumentV A))"
| "value_shape F V = Foreign V"

fun inst_shape :: "Function_ptr \<Rightarrow> Instruction \<Rightarrow> InstShape" where
  "inst_shape F (ReturnInst V) = RetShape (map_option (value_shape F) V)"
| "inst_shape F UnreachableInst = UnreachableShape"

definition block_shape ::
  "LLVMState \<Rightarrow> Function_ptr \<Rightarrow> BasicBlock_ptr \<Rightarrow> (string \<times> InstShape list) option" where
  "block_shape s F BB =
     map_option (\<lambda>bb. (BB_Name bb, map (inst_shape F) (InstList bb))) (deref (BasicBlocks s) BB)"

definition function_shape ::
  "LLVMState \<Rightarrow> Function_ptr
     \<Rightarrow> (string \<times> LinkageTypes \<times> Type_ptr \<times> Type_ptr list \<times> (string \<times> InstShape list) option list) option" where
  "function_shape s F =
     map_option
       (\<lambda>f. (F_Name f, F_Linkage f, F_Ty f, map Arg_Ty (F_Args f), map (block_shape s F) (F_Blocks f)))
       (deref (Functions s) F)"

subsection \<open>A state for worked examples\<close>

text \<open>
  The context exists; the type table holds \<open>i32\<close> (handle 1), pointer to \<open>i32\<close> in
  address space 0 (handle 2) and pointer to \<open>i32\<close> in address space 10 (handle 3);
  nothing else has been allocated and the context has no module.
\<close>

definition state_Int32 :: LLVMState where
  "state_Int32 =
     \<lparr>jl_LLVMContext = Some (LLVMContext 0),
      Types = [IntegerTy 32, PointerTy 1 0, PointerTy 1 10], OwnedModules = {},
      Modules = [], Functions = [], BasicBlocks = []\<rparr>"

section \<open>Stores and type uniquing\<close>

lemma deref_Some_iff: "deref store p = Some x \<longleftrightarrow> 0 < p \<and> p \<le> length store \<and> store ! (p - 1) = x"
  by (auto simp: deref_def)

lemma deref_None_iff: "deref store p = None \<longleftrightarrow> p = 0 \<or> length store < p"
  by (auto simp: deref_def)

lemma deref_append_old: "deref store p = Some x \<Longrightarrow> deref (store @ extra) p = Some x"
  by (auto simp: deref_def nth_append split: if_splits)

lemma deref_alloc_new: "deref (store @ [x]) (Suc (length store)) = Some x"
  by (simp add: deref_def)

lemma deref_fresh: "deref store (Suc (length store)) = None"
  by (simp add: deref_def)

lemma update_last: "update (store @ [x]) (Suc (length store)) y = store @ [y]"
  by (simp add: update_def)

lemma index_of_Some: "index_of x xs = Some i \<Longrightarrow> i < length xs \<and> xs ! i = x"
  by (induction xs arbitrary: i) (auto split: if_splits)

lemma index_of_None: "index_of x xs = None \<Longrightarrow> x \<notin> set xs"
  by (induction xs) (auto split: if_splits)

lemma index_of_append_old: "index_of x xs = Some i \<Longrightarrow> index_of x (xs @ ys) = Some i"
  by (induction xs arbitrary: i) (auto split: if_splits)

lemma index_of_append_new: "index_of x xs = None \<Longrightarrow> index_of x (xs @ x # ys) = Some (length xs)"
  by (induction xs) (auto split: if_splits)

lemma intern_type_cases:
  assumes "intern_type node s = (p, s')"
  shows "(s' = s \<or> s' = s\<lparr>Types := Types s @ [node]\<rparr>) \<and> deref (Types s') p = Some node"
  using assms
  by (auto simp: intern_type_def alloc_def deref_def dest: index_of_Some split: option.splits)

lemma intern_type_frame:
  assumes "intern_type node s = (p, s')"
  shows "\<exists>extra. s' = s\<lparr>Types := Types s @ extra\<rparr>"
proof -
  from intern_type_cases [OF assms] have "s' = s \<or> s' = s\<lparr>Types := Types s @ [node]\<rparr>" by simp
  then show ?thesis
  proof
    assume "s' = s"
    then have "s' = s\<lparr>Types := Types s @ []\<rparr>" by simp
    then show ?thesis by blast
  next
    assume "s' = s\<lparr>Types := Types s @ [node]\<rparr>"
    then show ?thesis by blast
  qed
qed

lemma intern_type_fields:
  assumes "intern_type node s = (p, s')"
  shows "jl_LLVMContext s' = jl_LLVMContext s" "Modules s' = Modules s"
    "Functions s' = Functions s" "BasicBlocks s' = BasicBlocks s"
    "OwnedModules s' = OwnedModules s"
  using intern_type_frame [OF assms] by auto

lemma intern_type_Modules:
  "intern_type node (s\<lparr>Modules := ms, OwnedModules := om\<rparr>) =
     (case intern_type node s of (p, s') \<Rightarrow> (p, s'\<lparr>Modules := ms, OwnedModules := om\<rparr>))"
  by (simp add: intern_type_def alloc_def split: option.splits)

lemma deref_nonnull: "deref store p = Some x \<Longrightarrow> p \<noteq> 0"
  by (simp add: deref_Some_iff)

text \<open>A type that has been requested once is found, under the same handle, ever after.\<close>

lemma intern_type_index:
  assumes "intern_type node s = (p, s')"
  shows "index_of node (Types s') = Some (p - 1) \<and> 0 < p"
  using assms
  by (auto simp: intern_type_def alloc_def index_of_append_new split: option.splits)

lemma intern_type_known:
  assumes "index_of node (Types s) = Some i"
  shows "intern_type node s = (Suc i, s)"
  using assms by (simp add: intern_type_def)

lemma intern_type_repeat:
  assumes "intern_type node s = (p, s')" and "Types s'' = Types s' @ extra"
  shows "intern_type node s'' = (p, s'')"
proof -
  from intern_type_index [OF assms(1)] have "index_of node (Types s') = Some (p - 1)" and "0 < p"
    by simp_all
  then have "index_of node (Types s'') = Some (p - 1)"
    by (simp add: assms(2) index_of_append_old)
  from intern_type_known [OF this] \<open>0 < p\<close> show ?thesis by simp
qed

section \<open>The run of the routine\<close>

text \<open>
  With a valid descriptor and an initialised context no statement of the routine
  faults, and the state it leaves is the state after the three type requests (the
  tracked pointer type, the function type, the type of the function as a value) with
  one module, one function and one block appended and the module recorded in the
  context.
\<close>

lemma MakeIdentityFunction_run:
  assumes D: "deref (Types s) AnyTy = Some (PointerTy T AS)"
    and C: "jl_LLVMContext s = Some ctx"
    and P: "intern_type (PointerTy T Tracked) s = (P, s1)"
    and FT: "intern_type (FunctionTy P [P] False) s1 = (FT, s2)"
    and PT: "intern_type (PointerTy FT 0) s2 = (PT, s3)"
  shows "MakeIdentityFunction Tracked AnyTy s =
     Inr (Suc (length (Functions s)),
          s3\<lparr>OwnedModules := insert (Suc (length (Modules s))) (OwnedModules s),
            Modules := Modules s @
              [\<lparr>ModuleID = ''shadow'', M_Context = ctx,
                FunctionList = [Suc (length (Functions s))]\<rparr>],
            Functions := Functions s @
              [\<lparr>F_Name = ''identity'', F_Linkage = ExternalLinkage, F_Ty = FT, F_ValueTy = PT,
                F_Parent = Suc (length (Modules s)),
                F_Args = [Argument P (Suc (length (Functions s))) 0],
                F_Blocks = [Suc (length (BasicBlocks s))]\<rparr>],
            BasicBlocks := BasicBlocks s @
              [\<lparr>BB_Name = ''top'', BB_Context = ctx, BB_Parent = Suc (length (Functions s)),
                InstList = [ReturnInst (Some (ArgumentV (Argument P (Suc (length (Functions s))) 0)))]\<rparr>]\<rparr>)"
proof -
  note f1 = intern_type_fields [OF P] and f2 = intern_type_fields [OF FT]
    and f3 = intern_type_fields [OF PT]
  define M where "M = Suc (length (Modules s))"
  define F where "F = Suc (length (Functions s))"
  define BB where "BB = Suc (length (BasicBlocks s))"
  define om where "om = insert M (OwnedModules s)"
  define m0 where "m0 = \<lparr>ModuleID = ''shadow'', M_Context = ctx, FunctionList = []\<rparr>"
  define f0 where "f0 = \<lparr>F_Name = ''identity'', F_Linkage = ExternalLinkage, F_Ty = FT,
     F_ValueTy = PT, F_Parent = M, F_Args = [Argument P F 0], F_Blocks = []\<rparr>"
  define b0 where "b0 = \<lparr>BB_Name = ''top'', BB_Context = ctx, BB_Parent = F, InstList = []\<rparr>"
  define t1 where "t1 = s1\<lparr>Modules := Modules s @ [m0], OwnedModules := om\<rparr>"
  define t2 where "t2 = s2\<lparr>Modules := Modules s @ [m0], OwnedModules := om\<rparr>"
  define t3 where "t3 = s3\<lparr>Modules := Modules s @ [m0], OwnedModules := om\<rparr>"
  define s4 where "s4 = t3\<lparr>Functions := Functions s @ [f0],
     Modules := Modules s @ [m0\<lparr>FunctionList := [F]\<rparr>]\<rparr>"
  define s5 where "s5 = s4\<lparr>BasicBlocks := BasicBlocks s @ [b0],
     Functions := Functions s @ [f0\<lparr>F_Blocks := [BB]\<rparr>]\<rparr>"
  define s6 where "s6 = s5\<lparr>BasicBlocks := BasicBlocks s @
     [b0\<lparr>InstList := [ReturnInst (Some (ArgumentV (Argument P F 0)))]\<rparr>]\<rparr>"
  have E: "getElementType AnyTy s = Inr T"
    using D deref_nonnull [OF D] by (simp add: getElementType_def)
  have P': "PointerType_get T Tracked s = (P, s1)"
    using P by (simp add: PointerType_get_def)
  have Mo: "new_Module ''shadow'' (jl_LLVMContext s1) s1 = Inr (M, t1)"
    using C f1 by (simp add: new_Module_def alloc_def M_def m0_def t1_def om_def)
  have FT': "FunctionType_get P [P] False t1 = (FT, t2)"
    using FT by (simp add: FunctionType_get_def intern_type_Modules t1_def t2_def)
  have L: "deref (Types t2) FT = Some (FunctionTy P [P] False)"
    using intern_type_cases [OF FT] by (simp add: t2_def)
  have PT': "intern_type (PointerTy FT 0) t2 = (PT, t3)"
    using PT by (simp add: intern_type_Modules t2_def t3_def)
  have Fu: "Function_Create FT ExternalLinkage ''identity'' M t2 = Inr (F, s4)"
    using L deref_nonnull [OF L] f1 f2 f3
    by (simp add: Function_Create_def PT' alloc_def make_args_def Let_def deref_alloc_new
        update_last t3_def s4_def M_def F_def f0_def m0_def)
  have Bl: "BasicBlock_Create (jl_LLVMContext s4) ''top'' F s4 = Inr (BB, s5)"
    using C f1 f2 f3
    by (simp add: BasicBlock_Create_def alloc_def Let_def deref_alloc_new update_last
        t3_def s4_def s5_def F_def BB_def b0_def f0_def)
  have Ar: "arg_begin F s5 = Inr (Argument P F 0)"
    by (simp add: arg_begin_def s5_def F_def deref_alloc_new f0_def)
  have Re: "CreateRet (IRBuilder BB) (ArgumentV (Argument P F 0)) s5 =
      Inr (ReturnInst (Some (ArgumentV (Argument P F 0))), s6)"
    by (simp add: CreateRet_def Let_def s5_def s6_def BB_def deref_alloc_new update_last b0_def)
  have "MakeIdentityFunction Tracked AnyTy s = Inr (F, s6)"
    unfolding MakeIdentityFunction_def by (simp add: E P' Mo FT' Fu Bl Ar Re)
  also have "s6 = s3\<lparr>OwnedModules := om,
            Modules := Modules s @
              [\<lparr>ModuleID = ''shadow'', M_Context = ctx, FunctionList = [F]\<rparr>],
            Functions := Functions s @
              [\<lparr>F_Name = ''identity'', F_Linkage = ExternalLinkage, F_Ty = FT, F_ValueTy = PT,
                F_Parent = M, F_Args = [Argument P F 0], F_Blocks = [BB]\<rparr>],
            BasicBlocks := BasicBlocks s @
              [\<lparr>BB_Name = ''top'', BB_Context = ctx, BB_Parent = F,
                InstList = [ReturnInst (Some (ArgumentV (Argument P F 0)))]\<rparr>]\<rparr>"
    by (simp add: s6_def s5_def s4_def t3_def m0_def f0_def b0_def)
  finally show ?thesis by (simp add: F_def M_def BB_def om_def)
qed

lemma MakeIdentityFunction_result:
  assumes D: "deref (Types s) AnyTy = Some (PointerTy T AS)"
    and C: "jl_LLVMContext s = Some ctx"
  shows "\<exists>P FT PT extra.
     MakeIdentityFunction Tracked AnyTy s =
       Inr (Suc (length (Functions s)),
          s\<lparr>Types := Types s @ extra,
            OwnedModules := insert (Suc (length (Modules s))) (OwnedModules s),
            Modules := Modules s @
              [\<lparr>ModuleID = ''shadow'', M_Context = ctx,
                FunctionList = [Suc (length (Functions s))]\<rparr>],
            Functions := Functions s @
              [\<lparr>F_Name = ''identity'', F_Linkage = ExternalLinkage, F_Ty = FT, F_ValueTy = PT,
                F_Parent = Suc (length (Modules s)),
                F_Args = [Argument P (Suc (length (Functions s))) 0],
                F_Blocks = [Suc (length (BasicBlocks s))]\<rparr>],
            BasicBlocks := BasicBlocks s @
              [\<lparr>BB_Name = ''top'', BB_Context = ctx, BB_Parent = Suc (length (Functions s)),
                InstList = [ReturnInst (Some (ArgumentV (Argument P (Suc (length (Functions s))) 0)))]\<rparr>]\<rparr>)
     \<and> deref (Types s @ extra) P = Some (PointerTy T Tracked)
     \<and> deref (Types s @ extra) FT = Some (FunctionTy P [P] False)
     \<and> deref (Types s @ extra) PT = Some (PointerTy FT 0)
     \<and> set extra \<subseteq> {PointerTy T Tracked, FunctionTy P [P] False, PointerTy FT 0}"
proof -
  obtain P s1 where P: "intern_type (PointerTy T Tracked) s = (P, s1)"
    by (cases "intern_type (PointerTy T Tracked) s") blast
  obtain FT s2 where FT: "intern_type (FunctionTy P [P] False) s1 = (FT, s2)"
    by (cases "intern_type (FunctionTy P [P] False) s1") blast
  obtain PT s3 where PT: "intern_type (PointerTy FT 0) s2 = (PT, s3)"
    by (cases "intern_type (PointerTy FT 0) s2") blast
  from intern_type_cases [OF P] have c1: "s1 = s \<or> s1 = s\<lparr>Types := Types s @ [PointerTy T Tracked]\<rparr>"
    and d1: "deref (Types s1) P = Some (PointerTy T Tracked)" by simp_all
  from intern_type_cases [OF FT]
  have c2: "s2 = s1 \<or> s2 = s1\<lparr>Types := Types s1 @ [FunctionTy P [P] False]\<rparr>"
    and d2: "deref (Types s2) FT = Some (FunctionTy P [P] False)" by simp_all
  from intern_type_cases [OF PT]
  have c3: "s3 = s2 \<or> s3 = s2\<lparr>Types := Types s2 @ [PointerTy FT 0]\<rparr>"
    and d3: "deref (Types s3) PT = Some (PointerTy FT 0)" by simp_all
  from c1 obtain e1 where e1: "Types s1 = Types s @ e1" "set e1 \<subseteq> {PointerTy T Tracked}"
    by auto
  from c2 obtain e2 where e2: "Types s2 = Types s1 @ e2" "set e2 \<subseteq> {FunctionTy P [P] False}"
    by auto
  from c3 obtain e3 where e3: "Types s3 = Types s2 @ e3" "set e3 \<subseteq> {PointerTy FT 0}"
    by auto
  have T3: "Types s3 = Types s @ (e1 @ e2 @ e3)" using e1 e2 e3 by simp
  from intern_type_frame [OF P] intern_type_frame [OF FT] intern_type_frame [OF PT]
  have "\<exists>x. s3 = s\<lparr>Types := x\<rparr>" by auto
  then have s3: "s3 = s\<lparr>Types := Types s @ (e1 @ e2 @ e3)\<rparr>" using T3 by auto
  have dP: "deref (Types s @ (e1 @ e2 @ e3)) P = Some (PointerTy T Tracked)"
    using deref_append_old [OF d1, of "e2 @ e3"] e1 by simp
  have dF: "deref (Types s @ (e1 @ e2 @ e3)) FT = Some (FunctionTy P [P] False)"
    using deref_append_old [OF d2, of e3] e1 e2 by simp
  have dV: "deref (Types s @ (e1 @ e2 @ e3)) PT = Some (PointerTy FT 0)"
    using d3 T3 by simp
  have sub: "set (e1 @ e2 @ e3) \<subseteq> {PointerTy T Tracked, FunctionTy P [P] False, PointerTy FT 0}"
    using e1 e2 e3 by auto
  have run: "MakeIdentityFunction Tracked AnyTy s =
       Inr (Suc (length (Functions s)),
          s\<lparr>Types := Types s @ (e1 @ e2 @ e3),
            OwnedModules := insert (Suc (length (Modules s))) (OwnedModules s),
            Modules := Modules s @
              [\<lparr>ModuleID = ''shadow'', M_Context = ctx,
                FunctionList = [Suc (length (Functions s))]\<rparr>],
            Functions := Functions s @
              [\<lparr>F_Name = ''identity'', F_Linkage = ExternalLinkage, F_Ty = FT, F_ValueTy = PT,
                F_Parent = Suc (length (Modules s)),
                F_Args = [Argument P (Suc (length (Functions s))) 0],
                F_Blocks = [Suc (length (BasicBlocks s))]\<rparr>],
            BasicBlocks := BasicBlocks s @
              [\<lparr>BB_Name = ''top'', BB_Context = ctx, BB_Parent = Suc (length (Functions s)),
                InstList = [ReturnInst (Some (ArgumentV (Argument P (Suc (length (Functions s))) 0)))]\<rparr>]\<rparr>)"
    unfolding MakeIdentityFunction_run [OF D C P FT PT] by (subst s3) simp
  show ?thesis
    by (intro exI conjI) (rule run dP dF dV sub)+
qed

text \<open>The faulting runs, and what a run that returns says about its input.\<close>

lemma MakeIdentityFunction_Inr_pre:
  assumes "MakeIdentityFunction Tracked AnyTy s = Inr (F, s')"
  shows "\<exists>T AS ctx. deref (Types s) AnyTy = Some (PointerTy T AS) \<and> jl_LLVMContext s = Some ctx"
proof -
  from assms obtain T where E: "getElementType AnyTy s = Inr T"
    by (cases "getElementType AnyTy s") (auto simp: MakeIdentityFunction_def)
  then obtain AS where D: "deref (Types s) AnyTy = Some (PointerTy T AS)"
    by (auto simp: getElementType_def split: if_splits option.splits TypeNode.splits)
  obtain P s1 where P: "intern_type (PointerTy T Tracked) s = (P, s1)"
    by (cases "intern_type (PointerTy T Tracked) s") blast
  have "jl_LLVMContext s \<noteq> None"
  proof
    assume "jl_LLVMContext s = None"
    then have "jl_LLVMContext s1 = None" using intern_type_fields(1) [OF P] by simp
    then have "MakeIdentityFunction Tracked AnyTy s = Inl ContextAbsent"
      by (simp add: MakeIdentityFunction_def E PointerType_get_def P new_Module_def)
    with assms show False by simp
  qed
  with D show ?thesis by auto
qed

lemma MakeIdentityFunction_null:
  "MakeIdentityFunction Tracked 0 s = Inl NullDereference"
  by (simp add: MakeIdentityFunction_def getElementType_def)

lemma MakeIdentityFunction_no_context:
  assumes D: "deref (Types s) AnyTy = Some (PointerTy T AS)" and C: "jl_LLVMContext s = None"
  shows "MakeIdentityFunction Tracked AnyTy s = Inl ContextAbsent"
proof -
  have E: "getElementType AnyTy s = Inr T"
    using D deref_nonnull [OF D] by (simp add: getElementType_def)
  obtain P s1 where P: "intern_type (PointerTy T Tracked) s = (P, s1)"
    by (cases "intern_type (PointerTy T Tracked) s") blast
  have "jl_LLVMContext s1 = None" using intern_type_fields(1) [OF P] C by simp
  then show ?thesis
    by (simp add: MakeIdentityFunction_def E PointerType_get_def P new_Module_def)
qed

text \<open>
  Two calls in a row with descriptors of the same pointee: the second call finds the
  three derived types in the type table and allocates a second module, function and
  block.
\<close>

lemma MakeIdentityFunction_twice:
  assumes D1: "deref (Types s) D1 = Some (PointerTy T AS1)"
    and D2: "deref (Types s) D2 = Some (PointerTy T AS2)"
    and C: "jl_LLVMContext s = Some ctx"
  shows "\<exists>P FT PT extra sA sB.
     sA = s\<lparr>Types := Types s @ extra,
         OwnedModules := insert (Suc (length (Modules s))) (OwnedModules s),
         Modules := Modules s @
           [\<lparr>ModuleID = ''shadow'', M_Context = ctx,
             FunctionList = [Suc (length (Functions s))]\<rparr>],
         Functions := Functions s @
           [\<lparr>F_Name = ''identity'', F_Linkage = ExternalLinkage, F_Ty = FT, F_ValueTy = PT,
             F_Parent = Suc (length (Modules s)),
             F_Args = [Argument P (Suc (length (Functions s))) 0],
             F_Blocks = [Suc (length (BasicBlocks s))]\<rparr>],
         BasicBlocks := BasicBlocks s @
           [\<lparr>BB_Name = ''top'', BB_Context = ctx, BB_Parent = Suc (length (Functions s)),
             InstList = [ReturnInst (Some (ArgumentV (Argument P (Suc (length (Functions s))) 0)))]\<rparr>]\<rparr>
   \<and> sB = sA\<lparr>
         OwnedModules := insert (Suc (length (Modules sA))) (OwnedModules sA),
         Modules := Modules sA @
           [\<lparr>ModuleID = ''shadow'', M_Context = ctx,
             FunctionList = [Suc (length (Functions sA))]\<rparr>],
         Functions := Functions sA @
           [\<lparr>F_Name = ''identity'', F_Linkage = ExternalLinkage, F_Ty = FT, F_ValueTy = PT,
             F_Parent = Suc (length (Modules sA)),
             F_Args = [Argument P (Suc (length (Functions sA))) 0],
             F_Blocks = [Suc (length (BasicBlocks sA))]\<rparr>],
         BasicBlocks := BasicBlocks sA @
           [\<lparr>BB_Name = ''top'', BB_Context = ctx, BB_Parent = Suc (length (Functions sA)),
             InstList = [ReturnInst (Some (ArgumentV (Argument P (Suc (length (Functions sA))) 0)))]\<rparr>]\<rparr>
   \<and> MakeIdentityFunction Tracked D1 s = Inr (Suc (length (Functions s)), sA)
   \<and> MakeIdentityFunction Tracked D2 sA = Inr (Suc (length (Functions sA)), sB)
   \<and> deref (Types s @ extra) P = Some (PointerTy T Tracked)
   \<and> deref (Types s @ extra) FT = Some (FunctionTy P [P] False)"
proof -
  obtain P s1 where P: "intern_type (PointerTy T Tracked) s = (P, s1)"
    by (cases "intern_type (PointerTy T Tracked) s") blast
  obtain FT s2 where FT: "intern_type (FunctionTy P [P] False) s1 = (FT, s2)"
    by (cases "intern_type (FunctionTy P [P] False) s1") blast
  obtain PT s3 where PT: "intern_type (PointerTy FT 0) s2 = (PT, s3)"
    by (cases "intern_type (PointerTy FT 0) s2") blast
  from intern_type_frame [OF P] obtain e1 where s1: "s1 = s\<lparr>Types := Types s @ e1\<rparr>" by blast
  from intern_type_frame [OF FT] obtain e2 where s2': "s2 = s1\<lparr>Types := Types s1 @ e2\<rparr>" by blast
  from intern_type_frame [OF PT] obtain e3 where s3': "s3 = s2\<lparr>Types := Types s2 @ e3\<rparr>" by blast
  have s2: "s2 = s\<lparr>Types := Types s @ (e1 @ e2)\<rparr>" by (simp add: s1 s2')
  have s3: "s3 = s\<lparr>Types := Types s @ (e1 @ e2 @ e3)\<rparr>" by (simp add: s2 s3')
  from intern_type_cases [OF P] have d1: "deref (Types s1) P = Some (PointerTy T Tracked)" by simp
  from intern_type_cases [OF FT] have d2: "deref (Types s2) FT = Some (FunctionTy P [P] False)" by simp
  have dP: "deref (Types s @ (e1 @ e2 @ e3)) P = Some (PointerTy T Tracked)"
    using deref_append_old [OF d1, of "e2 @ e3"] by (simp add: s1)
  have dF: "deref (Types s @ (e1 @ e2 @ e3)) FT = Some (FunctionTy P [P] False)"
    using deref_append_old [OF d2, of e3] by (simp add: s2)
  define sA where "sA = s\<lparr>Types := Types s @ (e1 @ e2 @ e3),
         OwnedModules := insert (Suc (length (Modules s))) (OwnedModules s),
         Modules := Modules s @
           [\<lparr>ModuleID = ''shadow'', M_Context = ctx,
             FunctionList = [Suc (length (Functions s))]\<rparr>],
         Functions := Functions s @
           [\<lparr>F_Name = ''identity'', F_Linkage = ExternalLinkage, F_Ty = FT, F_ValueTy = PT,
             F_Parent = Suc (length (Modules s)),
             F_Args = [Argument P (Suc (length (Functions s))) 0],
             F_Blocks = [Suc (length (BasicBlocks s))]\<rparr>],
         BasicBlocks := BasicBlocks s @
           [\<lparr>BB_Name = ''top'', BB_Context = ctx, BB_Parent = Suc (length (Functions s)),
             InstList = [ReturnInst (Some (ArgumentV (Argument P (Suc (length (Functions s))) 0)))]\<rparr>]\<rparr>"
  have run1: "MakeIdentityFunction Tracked D1 s = Inr (Suc (length (Functions s)), sA)"
    unfolding MakeIdentityFunction_run [OF D1 C P FT PT] sA_def by (subst s3) simp
  have TA: "Types sA = Types s @ (e1 @ e2 @ e3)" by (simp add: sA_def)
  have PA: "intern_type (PointerTy T Tracked) sA = (P, sA)"
    by (rule intern_type_repeat [OF P, of sA "e2 @ e3"]) (simp add: TA s1)
  have FA: "intern_type (FunctionTy P [P] False) sA = (FT, sA)"
    by (rule intern_type_repeat [OF FT, of sA e3]) (simp add: TA s2)
  have VA: "intern_type (PointerTy FT 0) sA = (PT, sA)"
    by (rule intern_type_repeat [OF PT, of sA "[]"]) (simp add: TA s3)
  have DA: "deref (Types sA) D2 = Some (PointerTy T AS2)"
    using deref_append_old [OF D2, of "e1 @ e2 @ e3"] by (simp add: TA)
  have CA: "jl_LLVMContext sA = Some ctx" using C by (simp add: sA_def)
  define sB where "sB = sA\<lparr>
         OwnedModules := insert (Suc (length (Modules sA))) (OwnedModules sA),
         Modules := Modules sA @
           [\<lparr>ModuleID = ''shadow'', M_Context = ctx,
             FunctionList = [Suc (length (Functions sA))]\<rparr>],
         Functions := Functions sA @
           [\<lparr>F_Name = ''identity'', F_Linkage = ExternalLinkage, F_Ty = FT, F_ValueTy = PT,
             F_Parent = Suc (length (Modules sA)),
             F_Args = [Argument P (Suc (length (Functions sA))) 0],
             F_Blocks = [Suc (length (BasicBlocks sA))]\<rparr>],
         BasicBlocks := BasicBlocks sA @
           [\<lparr>BB_Name = ''top'', BB_Context = ctx, BB_Parent = Suc (length (Functions sA)),
             InstList = [ReturnInst (Some (ArgumentV (Argument P (Suc (length (Functions sA))) 0)))]\<rparr>]\<rparr>"
  have run2: "MakeIdentityFunction Tracked D2 sA = Inr (Suc (length (Functions sA)), sB)"
    unfolding sB_def by (rule MakeIdentityFunction_run [OF DA CA PA FA VA])
  show ?thesis
    apply (rule exI [of _ P])
    apply (rule exI [of _ FT])
    apply (rule exI [of _ PT])
    apply (rule exI [of _ "e1 @ e2 @ e3"])
    apply (rule exI [of _ sA])
    apply (rule exI [of _ sB])
    apply (intro conjI)
         apply (rule sA_def)
        apply (rule sB_def)
       apply (rule run1)
      apply (rule run2)
     apply (rule dP)
    apply (rule dF)
    done
qed

section \<open>What one call builds\<close>

text \<open>
  In the theorems below a valid pointer-type descriptor is a handle \<open>AnyTy\<close> that
  designates a pointer type in the type table, \<open>deref (Types s) AnyTy = Some (PointerTy T AS)\<close>,
  with pointee \<open>T\<close> and address space \<open>AS\<close>; the context is initialised when
  \<open>jl_LLVMContext s = Some ctx\<close>.
\<close>

text \<open>
  Claim C1. For every valid pointer-type descriptor the returned function has exactly
  one basic block, named "top", and that block holds exactly one instruction: a return
  whose operand is the first and only formal parameter of the function itself.
\<close>

theorem MakeIdentityFunction_body:
  assumes D: "deref (Types s) AnyTy = Some (PointerTy T AS)"
    and C: "jl_LLVMContext s = Some ctx"
  shows "\<exists>F s' f A BB bb.
     MakeIdentityFunction Tracked AnyTy s = Inr (F, s') \<and>
     deref (Functions s') F = Some f \<and> F_Args f = [A] \<and> F_Blocks f = [BB] \<and>
     deref (BasicBlocks s') BB = Some bb \<and> BB_Name bb = ''top'' \<and> BB_Parent bb = F \<and>
     InstList bb = [ReturnInst (Some (ArgumentV A))] \<and> Arg_Parent A = F \<and> ArgNo A = 0"
proof -
  from MakeIdentityFunction_result [OF D C, of Tracked] obtain P FT PT extra where
    R: "MakeIdentityFunction Tracked AnyTy s =
       Inr (Suc (length (Functions s)),
          s\<lparr>Types := Types s @ extra,
            OwnedModules := insert (Suc (length (Modules s))) (OwnedModules s),
            Modules := Modules s @
              [\<lparr>ModuleID = ''shadow'', M_Context = ctx,
                FunctionList = [Suc (length (Functions s))]\<rparr>],
            Functions := Functions s @
              [\<lparr>F_Name = ''identity'', F_Linkage = ExternalLinkage, F_Ty = FT, F_ValueTy = PT,
                F_Parent = Suc (length (Modules s)),
                F_Args = [Argument P (Suc (length (Functions s))) 0],
                F_Blocks = [Suc (length (BasicBlocks s))]\<rparr>],
            BasicBlocks := BasicBlocks s @
              [\<lparr>BB_Name = ''top'', BB_Context = ctx, BB_Parent = Suc (length (Functions s)),
                InstList = [ReturnInst (Some (ArgumentV (Argument P (Suc (length (Functions s))) 0)))]\<rparr>]\<rparr>)"
    and dP: "deref (Types s @ extra) P = Some (PointerTy T Tracked)"
    and dF: "deref (Types s @ extra) FT = Some (FunctionTy P [P] False)"
    and dV: "deref (Types s @ extra) PT = Some (PointerTy FT 0)"
    and ex: "set extra \<subseteq> {PointerTy T Tracked, FunctionTy P [P] False, PointerTy FT 0}"
    by (elim exE conjE)
  show ?thesis unfolding R by (simp add: deref_alloc_new)
qed

theorem MakeIdentityFunction_body_witness:
  "deref (Types state_Int32) 2 = Some (PointerTy 1 0) \<and>
   jl_LLVMContext state_Int32 = Some (LLVMContext 0) \<and>
   (\<exists>F s' f A BB bb.
     MakeIdentityFunction 10 2 state_Int32 = Inr (F, s') \<and>
     deref (Functions s') F = Some f \<and> F_Args f = [A] \<and> F_Blocks f = [BB] \<and>
     deref (BasicBlocks s') BB = Some bb \<and> BB_Name bb = ''top'' \<and> BB_Parent bb = F \<and>
     InstList bb = [ReturnInst (Some (ArgumentV A))] \<and> Arg_Parent A = F \<and> ArgNo A = 0)"
proof -
  have h1: "deref (Types state_Int32) 2 = Some (PointerTy 1 0)"
    by (simp add: state_Int32_def deref_def)
  have h2: "jl_LLVMContext state_Int32 = Some (LLVMContext 0)"
    by (simp add: state_Int32_def)
  show ?thesis by (intro conjI h1 h2 MakeIdentityFunction_body [OF h1 h2])
qed

text \<open>
  Claim C2. For every valid descriptor with pointee \<open>T\<close> the returned function has one
  formal parameter; the type of the parameter is the pointer to \<open>T\<close> in the Tracked
  address space, and the return type of the function type is that same type.
\<close>

theorem MakeIdentityFunction_signature:
  assumes D: "deref (Types s) AnyTy = Some (PointerTy T AS)"
    and C: "jl_LLVMContext s = Some ctx"
  shows "\<exists>F s' f P Result Params isVarArg.
     MakeIdentityFunction Tracked AnyTy s = Inr (F, s') \<and>
     deref (Functions s') F = Some f \<and>
     length (F_Args f) = 1 \<and> map Arg_Ty (F_Args f) = [P] \<and>
     deref (Types s') (F_Ty f) = Some (FunctionTy Result Params isVarArg) \<and>
     Params = [P] \<and> Result = P \<and>
     deref (Types s') P = Some (PointerTy T Tracked)"
proof -
  from MakeIdentityFunction_result [OF D C, of Tracked] obtain P FT PT extra where
    R: "MakeIdentityFunction Tracked AnyTy s =
       Inr (Suc (length (Functions s)),
          s\<lparr>Types := Types s @ extra,
            OwnedModules := insert (Suc (length (Modules s))) (OwnedModules s),
            Modules := Modules s @
              [\<lparr>ModuleID = ''shadow'', M_Context = ctx,
                FunctionList = [Suc (length (Functions s))]\<rparr>],
            Functions := Functions s @
              [\<lparr>F_Name = ''identity'', F_Linkage = ExternalLinkage, F_Ty = FT, F_ValueTy = PT,
                F_Parent = Suc (length (Modules s)),
                F_Args = [Argument P (Suc (length (Functions s))) 0],
                F_Blocks = [Suc (length (BasicBlocks s))]\<rparr>],
            BasicBlocks := BasicBlocks s @
              [\<lparr>BB_Name = ''top'', BB_Context = ctx, BB_Parent = Suc (length (Functions s)),
                InstList = [ReturnInst (Some (ArgumentV (Argument P (Suc (length (Functions s))) 0)))]\<rparr>]\<rparr>)"
    and dP: "deref (Types s @ extra) P = Some (PointerTy T Tracked)"
    and dF: "deref (Types s @ extra) FT = Some (FunctionTy P [P] False)"
    and dV: "deref (Types s @ extra) PT = Some (PointerTy FT 0)"
    and ex: "set extra \<subseteq> {PointerTy T Tracked, FunctionTy P [P] False, PointerTy FT 0}"
    by (elim exE conjE)
  show ?thesis unfolding R using dP dF by (simp add: deref_alloc_new, blast)
qed

theorem MakeIdentityFunction_signature_witness:
  "deref (Types state_Int32) 2 = Some (PointerTy 1 0) \<and>
   jl_LLVMContext state_Int32 = Some (LLVMContext 0) \<and>
   (\<exists>F s' f P Result Params isVarArg.
     MakeIdentityFunction 10 2 state_Int32 = Inr (F, s') \<and>
     deref (Functions s') F = Some f \<and>
     length (F_Args f) = 1 \<and> map Arg_Ty (F_Args f) = [P] \<and>
     deref (Types s') (F_Ty f) = Some (FunctionTy Result Params isVarArg) \<and>
     Params = [P] \<and> Result = P \<and>
     deref (Types s') P = Some (PointerTy 1 10))"
proof -
  have h1: "deref (Types state_Int32) 2 = Some (PointerTy 1 0)"
    by (simp add: state_Int32_def deref_def)
  have h2: "jl_LLVMContext state_Int32 = Some (LLVMContext 0)"
    by (simp add: state_Int32_def)
  show ?thesis by (intro conjI h1 h2 MakeIdentityFunction_signature [OF h1 h2])
qed

text \<open>
  Claim C3. For every call that returns, the function is named "identity", has external
  linkage, and its parent is a module that did not exist before the call and that lists
  this function and no other.
\<close>

theorem MakeIdentityFunction_named_external_owned:
  assumes D: "deref (Types s) AnyTy = Some (PointerTy T AS)"
    and C: "jl_LLVMContext s = Some ctx"
  shows "\<exists>F s' f m.
     MakeIdentityFunction Tracked AnyTy s = Inr (F, s') \<and>
     deref (Functions s) F = None \<and> deref (Functions s') F = Some f \<and>
     F_Name f = ''identity'' \<and> F_Linkage f = ExternalLinkage \<and>
     F_Parent f \<noteq> 0 \<and> deref (Modules s) (F_Parent f) = None \<and>
     deref (Modules s') (F_Parent f) = Some m \<and> FunctionList m = [F]"
proof -
  from MakeIdentityFunction_result [OF D C, of Tracked] obtain P FT PT extra where
    R: "MakeIdentityFunction Tracked AnyTy s =
       Inr (Suc (length (Functions s)),
          s\<lparr>Types := Types s @ extra,
            OwnedModules := insert (Suc (length (Modules s))) (OwnedModules s),
            Modules := Modules s @
              [\<lparr>ModuleID = ''shadow'', M_Context = ctx,
                FunctionList = [Suc (length (Functions s))]\<rparr>],
            Functions := Functions s @
              [\<lparr>F_Name = ''identity'', F_Linkage = ExternalLinkage, F_Ty = FT, F_ValueTy = PT,
                F_Parent = Suc (length (Modules s)),
                F_Args = [Argument P (Suc (length (Functions s))) 0],
                F_Blocks = [Suc (length (BasicBlocks s))]\<rparr>],
            BasicBlocks := BasicBlocks s @
              [\<lparr>BB_Name = ''top'', BB_Context = ctx, BB_Parent = Suc (length (Functions s)),
                InstList = [ReturnInst (Some (ArgumentV (Argument P (Suc (length (Functions s))) 0)))]\<rparr>]\<rparr>)"
    and dP: "deref (Types s @ extra) P = Some (PointerTy T Tracked)"
    and dF: "deref (Types s @ extra) FT = Some (FunctionTy P [P] False)"
    and dV: "deref (Types s @ extra) PT = Some (PointerTy FT 0)"
    and ex: "set extra \<subseteq> {PointerTy T Tracked, FunctionTy P [P] False, PointerTy FT 0}"
    by (elim exE conjE)
  show ?thesis unfolding R by (simp add: deref_alloc_new deref_fresh)
qed

theorem MakeIdentityFunction_named_external_owned_witness:
  "deref (Types state_Int32) 2 = Some (PointerTy 1 0) \<and>
   jl_LLVMContext state_Int32 = Some (LLVMContext 0) \<and>
   (\<exists>F s' f m.
     MakeIdentityFunction 10 2 state_Int32 = Inr (F, s') \<and>
     deref (Functions state_Int32) F = None \<and> deref (Functions s') F = Some f \<and>
     F_Name f = ''identity'' \<and> F_Linkage f = ExternalLinkage \<and>
     F_Parent f \<noteq> 0 \<and> deref (Modules state_Int32) (F_Parent f) = None \<and>
     deref (Modules s') (F_Parent f) = Some m \<and> FunctionList m = [F])"
proof -
  have h1: "deref (Types state_Int32) 2 = Some (PointerTy 1 0)"
    by (simp add: state_Int32_def deref_def)
  have h2: "jl_LLVMContext state_Int32 = Some (LLVMContext 0)"
    by (simp add: state_Int32_def)
  show ?thesis by (intro conjI h1 h2 MakeIdentityFunction_named_external_owned [OF h1 h2])
qed

section \<open>What one call changes\<close>




text \<open>
  Claim C6. The call never changes the descriptor it is given: after the call the
  handle designates the same pointer type, with the same pointee and address space,
  and the type table of before is an unchanged initial part of the type table of
  after. The routine reads the descriptor once, for its pointee.
\<close>

theorem MakeIdentityFunction_descriptor_unchanged:
  assumes D: "deref (Types s) AnyTy = Some (PointerTy T AS)"
    and C: "jl_LLVMContext s = Some ctx"
  shows "\<exists>F s'.
     MakeIdentityFunction Tracked AnyTy s = Inr (F, s') \<and>
     getElementType AnyTy s = Inr T \<and>
     deref (Types s') AnyTy = Some (PointerTy T AS) \<and>
     getElementType AnyTy s' = Inr T \<and>
     take (length (Types s)) (Types s') = Types s"
proof -
  from MakeIdentityFunction_result [OF D C, of Tracked] obtain P FT PT extra where
    R: "MakeIdentityFunction Tracked AnyTy s =
       Inr (Suc (length (Functions s)),
          s\<lparr>Types := Types s @ extra,
            OwnedModules := insert (Suc (length (Modules s))) (OwnedModules s),
            Modules := Modules s @
              [\<lparr>ModuleID = ''shadow'', M_Context = ctx,
                FunctionList = [Suc (length (Functions s))]\<rparr>],
            Functions := Functions s @
              [\<lparr>F_Name = ''identity'', F_Linkage = ExternalLinkage, F_Ty = FT, F_ValueTy = PT,
                F_Parent = Suc (length (Modules s)),
                F_Args = [Argument P (Suc (length (Functions s))) 0],
                F_Blocks = [Suc (length (BasicBlocks s))]\<rparr>],
            BasicBlocks := BasicBlocks s @
              [\<lparr>BB_Name = ''top'', BB_Context = ctx, BB_Parent = Suc (length (Functions s)),
                InstList = [ReturnInst (Some (ArgumentV (Argument P (Suc (length (Functions s))) 0)))]\<rparr>]\<rparr>)"
    and dP: "deref (Types s @ extra) P = Some (PointerTy T Tracked)"
    and dF: "deref (Types s @ extra) FT = Some (FunctionTy P [P] False)"
    and dV: "deref (Types s @ extra) PT = Some (PointerTy FT 0)"
    and ex: "set extra \<subseteq> {PointerTy T Tracked, FunctionTy P [P] False, PointerTy FT 0}"
    by (elim exE conjE)
  have nz: "AnyTy \<noteq> 0" by (rule deref_nonnull [OF D])
  have D': "deref (Types s @ extra) AnyTy = Some (PointerTy T AS)"
    by (rule deref_append_old [OF D])
  show ?thesis unfolding R using D D' nz by (simp add: getElementType_def)
qed

theorem MakeIdentityFunction_descriptor_unchanged_witness:
  "deref (Types state_Int32) 2 = Some (PointerTy 1 0) \<and>
   jl_LLVMContext state_Int32 = Some (LLVMContext 0) \<and>
   (\<exists>F s'.
     MakeIdentityFunction 10 2 state_Int32 = Inr (F, s') \<and>
     getElementType 2 state_Int32 = Inr 1 \<and>
     deref (Types s') 2 = Some (PointerTy 1 0) \<and>
     getElementType 2 s' = Inr 1 \<and>
     take (length (Types state_Int32)) (Types s') = Types state_Int32)"
proof -
  have h1: "deref (Types state_Int32) 2 = Some (PointerTy 1 0)"
    by (simp add: state_Int32_def deref_def)
  have h2: "jl_LLVMContext state_Int32 = Some (LLVMContext 0)"
    by (simp add: state_Int32_def)
  show ?thesis by (intro conjI h1 h2 MakeIdentityFunction_descriptor_unchanged [OF h1 h2])
qed

text \<open>
  Claim C8. For every call that returns, the module allocated by the call, the parent
  of the returned function, is named exactly "shadow".
\<close>

theorem MakeIdentityFunction_module_named_shadow:
  assumes D: "deref (Types s) AnyTy = Some (PointerTy T AS)"
    and C: "jl_LLVMContext s = Some ctx"
  shows "\<exists>F s' f m.
     MakeIdentityFunction Tracked AnyTy s = Inr (F, s') \<and>
     deref (Functions s') F = Some f \<and>
     deref (Modules s) (F_Parent f) = None \<and>
     deref (Modules s') (F_Parent f) = Some m \<and>
     Modules s' = Modules s @ [m] \<and>
     ModuleID m = ''shadow'' \<and> M_Context m = ctx"
proof -
  from MakeIdentityFunction_result [OF D C, of Tracked] obtain P FT PT extra where
    R: "MakeIdentityFunction Tracked AnyTy s =
       Inr (Suc (length (Functions s)),
          s\<lparr>Types := Types s @ extra,
            OwnedModules := insert (Suc (length (Modules s))) (OwnedModules s),
            Modules := Modules s @
              [\<lparr>ModuleID = ''shadow'', M_Context = ctx,
                FunctionList = [Suc (length (Functions s))]\<rparr>],
            Functions := Functions s @
              [\<lparr>F_Name = ''identity'', F_Linkage = ExternalLinkage, F_Ty = FT, F_ValueTy = PT,
                F_Parent = Suc (length (Modules s)),
                F_Args = [Argument P (Suc (length (Functions s))) 0],
                F_Blocks = [Suc (length (BasicBlocks s))]\<rparr>],
            BasicBlocks := BasicBlocks s @
              [\<lparr>BB_Name = ''top'', BB_Context = ctx, BB_Parent = Suc (length (Functions s)),
                InstList = [ReturnInst (Some (ArgumentV (Argument P (Suc (length (Functions s))) 0)))]\<rparr>]\<rparr>)"
    and dP: "deref (Types s @ extra) P = Some (PointerTy T Tracked)"
    and dF: "deref (Types s @ extra) FT = Some (FunctionTy P [P] False)"
    and dV: "deref (Types s @ extra) PT = Some (PointerTy FT 0)"
    and ex: "set extra \<subseteq> {PointerTy T Tracked, FunctionTy P [P] False, PointerTy FT 0}"
    by (elim exE conjE)
  show ?thesis unfolding R by (simp add: deref_alloc_new deref_fresh)
qed

theorem MakeIdentityFunction_module_named_shadow_witness:
  "deref (Types state_Int32) 2 = Some (PointerTy 1 0) \<and>
   jl_LLVMContext state_Int32 = Some (LLVMContext 0) \<and>
   (\<exists>F s' f m.
     MakeIdentityFunction 10 2 state_Int32 = Inr (F, s') \<and>
     deref (Functions s') F = Some f \<and>
     deref (Modules state_Int32) (F_Parent f) = None \<and>
     deref (Modules s') (F_Parent f) = Some m \<and>
     Modules s' = Modules state_Int32 @ [m] \<and>
     ModuleID m = ''shadow'' \<and> M_Context m = LLVMContext 0)"
proof -
  have h1: "deref (Types state_Int32) 2 = Some (PointerTy 1 0)"
    by (simp add: state_Int32_def deref_def)
  have h2: "jl_LLVMContext state_Int32 = Some (LLVMContext 0)"
    by (simp add: state_Int32_def)
  show ?thesis by (intro conjI h1 h2 MakeIdentityFunction_module_named_shadow [OF h1 h2])
qed

text \<open>
  Claim C9. The function type the routine constructs is never variadic: for every
  descriptor for which the call gets as far as constructing it, the varargs flag of
  the type of the returned function is false.
\<close>

theorem MakeIdentityFunction_not_variadic:
  assumes D: "deref (Types s) AnyTy = Some (PointerTy T AS)"
    and C: "jl_LLVMContext s = Some ctx"
  shows "\<exists>F s' f Result Params.
     MakeIdentityFunction Tracked AnyTy s = Inr (F, s') \<and>
     deref (Functions s') F = Some f \<and>
     deref (Types s') (F_Ty f) = Some (FunctionTy Result Params False)"
proof -
  from MakeIdentityFunction_result [OF D C, of Tracked] obtain P FT PT extra where
    R: "MakeIdentityFunction Tracked AnyTy s =
       Inr (Suc (length (Functions s)),
          s\<lparr>Types := Types s @ extra,
            OwnedModules := insert (Suc (length (Modules s))) (OwnedModules s),
            Modules := Modules s @
              [\<lparr>ModuleID = ''shadow'', M_Context = ctx,
                FunctionList = [Suc (length (Functions s))]\<rparr>],
            Functions := Functions s @
              [\<lparr>F_Name = ''identity'', F_Linkage = ExternalLinkage, F_Ty = FT, F_ValueTy = PT,
                F_Parent = Suc (length (Modules s)),
                F_Args = [Argument P (Suc (length (Functions s))) 0],
                F_Blocks = [Suc (length (BasicBlocks s))]\<rparr>],
            BasicBlocks := BasicBlocks s @
              [\<lparr>BB_Name = ''top'', BB_Context = ctx, BB_Parent = Suc (length (Functions s)),
                InstList = [ReturnInst (Some (ArgumentV (Argument P (Suc (length (Functions s))) 0)))]\<rparr>]\<rparr>)"
    and dP: "deref (Types s @ extra) P = Some (PointerTy T Tracked)"
    and dF: "deref (Types s @ extra) FT = Some (FunctionTy P [P] False)"
    and dV: "deref (Types s @ extra) PT = Some (PointerTy FT 0)"
    and ex: "set extra \<subseteq> {PointerTy T Tracked, FunctionTy P [P] False, PointerTy FT 0}"
    by (elim exE conjE)
  show ?thesis unfolding R using dF by (simp add: deref_alloc_new)
qed

theorem MakeIdentityFunction_not_variadic_witness:
  "deref (Types state_Int32) 2 = Some (PointerTy 1 0) \<and>
   jl_LLVMContext state_Int32 = Some (LLVMContext 0) \<and>
   (\<exists>F s' f Result Params.
     MakeIdentityFunction 10 2 state_Int32 = Inr (F, s') \<and>
     deref (Functions s') F = Some f \<and>
     deref (Types s') (F_Ty f) = Some (FunctionTy Result Params False))"
proof -
  have h1: "deref (Types state_Int32) 2 = Some (PointerTy 1 0)"
    by (simp add: state_Int32_def deref_def)
  have h2: "jl_LLVMContext state_Int32 = Some (LLVMContext 0)"
    by (simp add: state_Int32_def)
  show ?thesis by (intro conjI h1 h2 MakeIdentityFunction_not_variadic [OF h1 h2])
qed

section \<open>Two calls\<close>

text \<open>
  Claim C5. Two calls in a row with the same descriptor return two different functions
  of the same shape (name, linkage, function type, parameter types, one block "top"
  with one return of the function's own first parameter). The first function is not
  touched by the second call. The two functions have different parent modules, each
  module lists its own function only, and their blocks are different objects.
\<close>

theorem MakeIdentityFunction_twice_equivalent_independent:
  assumes D: "deref (Types s) AnyTy = Some (PointerTy T AS)"
    and C: "jl_LLVMContext s = Some ctx"
  shows "\<exists>F1 s1 F2 s2 f1 f2 m1 m2 FT P.
     MakeIdentityFunction Tracked AnyTy s = Inr (F1, s1) \<and>
     MakeIdentityFunction Tracked AnyTy s1 = Inr (F2, s2) \<and>
     F1 \<noteq> F2 \<and>
     function_shape s2 F1 = function_shape s2 F2 \<and>
     function_shape s2 F2 =
       Some (''identity'', ExternalLinkage, FT, [P], [Some (''top'', [RetShape (Some (Param 0))])]) \<and>
     function_shape s1 F1 = function_shape s2 F1 \<and>
     deref (Functions s2) F1 = Some f1 \<and> deref (Functions s2) F2 = Some f2 \<and>
     F_Parent f1 \<noteq> F_Parent f2 \<and>
     deref (Modules s2) (F_Parent f1) = Some m1 \<and>
     deref (Modules s2) (F_Parent f2) = Some m2 \<and>
     FunctionList m1 = [F1] \<and> FunctionList m2 = [F2] \<and>
     set (F_Blocks f1) \<inter> set (F_Blocks f2) = {}"
proof -
  from MakeIdentityFunction_twice [OF D D C, of Tracked] obtain P FT PT extra sA sB where
    sA: "sA = s\<lparr>Types := Types s @ extra,
         OwnedModules := insert (Suc (length (Modules s))) (OwnedModules s),
         Modules := Modules s @
           [\<lparr>ModuleID = ''shadow'', M_Context = ctx,
             FunctionList = [Suc (length (Functions s))]\<rparr>],
         Functions := Functions s @
           [\<lparr>F_Name = ''identity'', F_Linkage = ExternalLinkage, F_Ty = FT, F_ValueTy = PT,
             F_Parent = Suc (length (Modules s)),
             F_Args = [Argument P (Suc (length (Functions s))) 0],
             F_Blocks = [Suc (length (BasicBlocks s))]\<rparr>],
         BasicBlocks := BasicBlocks s @
           [\<lparr>BB_Name = ''top'', BB_Context = ctx, BB_Parent = Suc (length (Functions s)),
             InstList = [ReturnInst (Some (ArgumentV (Argument P (Suc (length (Functions s))) 0)))]\<rparr>]\<rparr>"
    and sB: "sB = sA\<lparr>
         OwnedModules := insert (Suc (length (Modules sA))) (OwnedModules sA),
         Modules := Modules sA @
           [\<lparr>ModuleID = ''shadow'', M_Context = ctx,
             FunctionList = [Suc (length (Functions sA))]\<rparr>],
         Functions := Functions sA @
           [\<lparr>F_Name = ''identity'', F_Linkage = ExternalLinkage, F_Ty = FT, F_ValueTy = PT,
             F_Parent = Suc (length (Modules sA)),
             F_Args = [Argument P (Suc (length (Functions sA))) 0],
             F_Blocks = [Suc (length (BasicBlocks sA))]\<rparr>],
         BasicBlocks := BasicBlocks sA @
           [\<lparr>BB_Name = ''top'', BB_Context = ctx, BB_Parent = Suc (length (Functions sA)),
             InstList = [ReturnInst (Some (ArgumentV (Argument P (Suc (length (Functions sA))) 0)))]\<rparr>]\<rparr>"
    and run1: "MakeIdentityFunction Tracked AnyTy s = Inr (Suc (length (Functions s)), sA)"
    and run2: "MakeIdentityFunction Tracked AnyTy sA = Inr (Suc (length (Functions sA)), sB)"
    and dP: "deref (Types s @ extra) P = Some (PointerTy T Tracked)"
    and dF: "deref (Types s @ extra) FT = Some (FunctionTy P [P] False)"
    by (elim exE conjE)
  define F1 where "F1 = Suc (length (Functions s))"
  define F2 where "F2 = Suc (Suc (length (Functions s)))"
  define f1 where "f1 = \<lparr>F_Name = ''identity'', F_Linkage = ExternalLinkage, F_Ty = FT,
     F_ValueTy = PT, F_Parent = Suc (length (Modules s)), F_Args = [Argument P F1 0],
     F_Blocks = [Suc (length (BasicBlocks s))]\<rparr>"
  define f2 where "f2 = \<lparr>F_Name = ''identity'', F_Linkage = ExternalLinkage, F_Ty = FT,
     F_ValueTy = PT, F_Parent = Suc (Suc (length (Modules s))), F_Args = [Argument P F2 0],
     F_Blocks = [Suc (Suc (length (BasicBlocks s)))]\<rparr>"
  define m1 where "m1 = \<lparr>ModuleID = ''shadow'', M_Context = ctx, FunctionList = [F1]\<rparr>"
  define m2 where "m2 = \<lparr>ModuleID = ''shadow'', M_Context = ctx, FunctionList = [F2]\<rparr>"
  have lA: "length (Functions sA) = Suc (length (Functions s))" by (simp add: sA)
  have r1: "MakeIdentityFunction Tracked AnyTy s = Inr (F1, sA)" using run1 by (simp add: F1_def)
  have r2: "MakeIdentityFunction Tracked AnyTy sA = Inr (F2, sB)" using run2 by (simp add: F2_def lA)
  have FA: "Functions sA = Functions s @ [f1]" by (simp add: sA f1_def F1_def)
  have FB: "Functions sB = Functions s @ [f1, f2]" by (simp add: sB sA f1_def f2_def F1_def F2_def)
  have MB: "Modules sB = Modules s @ [m1, m2]" by (simp add: sB sA m1_def m2_def F1_def F2_def)
  have BA: "BasicBlocks sA = BasicBlocks s @
      [\<lparr>BB_Name = ''top'', BB_Context = ctx, BB_Parent = F1,
        InstList = [ReturnInst (Some (ArgumentV (Argument P F1 0)))]\<rparr>]"
    by (simp add: sA F1_def)
  have BB: "BasicBlocks sB = BasicBlocks s @
      [\<lparr>BB_Name = ''top'', BB_Context = ctx, BB_Parent = F1,
        InstList = [ReturnInst (Some (ArgumentV (Argument P F1 0)))]\<rparr>,
       \<lparr>BB_Name = ''top'', BB_Context = ctx, BB_Parent = F2,
        InstList = [ReturnInst (Some (ArgumentV (Argument P F2 0)))]\<rparr>]"
    by (simp add: sB sA F1_def F2_def)
  have ne: "F1 \<noteq> F2" by (simp add: F1_def F2_def)
  have g1A: "deref (Functions sA) F1 = Some f1" by (simp add: FA F1_def deref_alloc_new)
  have g1: "deref (Functions sB) F1 = Some f1" by (simp add: FB F1_def deref_def nth_append)
  have g2: "deref (Functions sB) F2 = Some f2" by (simp add: FB F2_def deref_def nth_append)
  have b1A: "deref (BasicBlocks sA) (Suc (length (BasicBlocks s))) =
      Some \<lparr>BB_Name = ''top'', BB_Context = ctx, BB_Parent = F1,
        InstList = [ReturnInst (Some (ArgumentV (Argument P F1 0)))]\<rparr>"
    by (simp add: BA deref_alloc_new)
  have b1: "deref (BasicBlocks sB) (Suc (length (BasicBlocks s))) =
      Some \<lparr>BB_Name = ''top'', BB_Context = ctx, BB_Parent = F1,
        InstList = [ReturnInst (Some (ArgumentV (Argument P F1 0)))]\<rparr>"
    by (simp add: BB deref_def nth_append)
  have b2: "deref (BasicBlocks sB) (Suc (Suc (length (BasicBlocks s)))) =
      Some \<lparr>BB_Name = ''top'', BB_Context = ctx, BB_Parent = F2,
        InstList = [ReturnInst (Some (ArgumentV (Argument P F2 0)))]\<rparr>"
    by (simp add: BB deref_def nth_append)
  have sh1A: "function_shape sA F1 =
      Some (''identity'', ExternalLinkage, FT, [P], [Some (''top'', [RetShape (Some (Param 0))])])"
    by (simp add: function_shape_def block_shape_def g1A f1_def b1A)
  have sh1: "function_shape sB F1 =
      Some (''identity'', ExternalLinkage, FT, [P], [Some (''top'', [RetShape (Some (Param 0))])])"
    by (simp add: function_shape_def block_shape_def g1 f1_def b1)
  have sh2: "function_shape sB F2 =
      Some (''identity'', ExternalLinkage, FT, [P], [Some (''top'', [RetShape (Some (Param 0))])])"
    by (simp add: function_shape_def block_shape_def g2 f2_def b2)
  have pne: "F_Parent f1 \<noteq> F_Parent f2" by (simp add: f1_def f2_def)
  have p1: "deref (Modules sB) (F_Parent f1) = Some m1"
    by (simp add: MB f1_def deref_def nth_append)
  have p2: "deref (Modules sB) (F_Parent f2) = Some m2"
    by (simp add: MB f2_def deref_def nth_append)
  have l1: "FunctionList m1 = [F1]" and l2: "FunctionList m2 = [F2]"
    by (simp_all add: m1_def m2_def)
  have bl: "set (F_Blocks f1) \<inter> set (F_Blocks f2) = {}" by (simp add: f1_def f2_def)
  have eq: "function_shape sB F1 = function_shape sB F2" by (simp add: sh1 sh2)
  have keep: "function_shape sA F1 = function_shape sB F1" by (simp add: sh1 sh1A)
  from r1 r2 ne eq sh2 keep g1 g2 pne p1 p2 l1 l2 bl show ?thesis by blast
qed

theorem MakeIdentityFunction_twice_equivalent_independent_witness:
  "deref (Types state_Int32) 2 = Some (PointerTy 1 0) \<and>
   jl_LLVMContext state_Int32 = Some (LLVMContext 0) \<and>
   (\<exists>F1 s1 F2 s2 f1 f2 m1 m2 FT P.
     MakeIdentityFunction 10 2 state_Int32 = Inr (F1, s1) \<and>
     MakeIdentityFunction 10 2 s1 = Inr (F2, s2) \<and>
     F1 \<noteq> F2 \<and>
     function_shape s2 F1 = function_shape s2 F2 \<and>
     function_shape s2 F2 =
       Some (''identity'', ExternalLinkage, FT, [P], [Some (''top'', [RetShape (Some (Param 0))])]) \<and>
     function_shape s1 F1 = function_shape s2 F1 \<and>
     deref (Functions s2) F1 = Some f1 \<and> deref (Functions s2) F2 = Some f2 \<and>
     F_Parent f1 \<noteq> F_Parent f2 \<and>
     deref (Modules s2) (F_Parent f1) = Some m1 \<and>
     deref (Modules s2) (F_Parent f2) = Some m2 \<and>
     FunctionList m1 = [F1] \<and> FunctionList m2 = [F2] \<and>
     set (F_Blocks f1) \<inter> set (F_Blocks f2) = {})"
proof -
  have h1: "deref (Types state_Int32) 2 = Some (PointerTy 1 0)"
    by (simp add: state_Int32_def deref_def)
  have h2: "jl_LLVMContext state_Int32 = Some (LLVMContext 0)"
    by (simp add: state_Int32_def)
  show ?thesis
    by (intro conjI h1 h2 MakeIdentityFunction_twice_equivalent_independent [OF h1 h2])
qed

section \<open>Failure and the address space of the descriptor\<close>

text \<open>
  Claim C7. The routine checks nothing itself. With a null descriptor or an absent
  context the call ends in a fault (the model's rendering of undefined behaviour or a
  process abort): a null descriptor is dereferenced by the first statement, and with a
  valid descriptor an absent context stops the construction of the module. With a valid
  (in particular non-null) descriptor and an initialised context the call returns.
  Whenever the call returns, what it returns is a non-null handle of a live function:
  there is no error value among the results.
\<close>

theorem MakeIdentityFunction_no_validation:
  "(AnyTy = 0 \<or> jl_LLVMContext s = None \<longrightarrow>
      (\<exists>e. MakeIdentityFunction Tracked AnyTy s = Inl e)) \<and>
   (AnyTy = 0 \<longrightarrow> MakeIdentityFunction Tracked AnyTy s = Inl NullDereference) \<and>
   (deref (Types s) AnyTy = Some (PointerTy T AS) \<and> jl_LLVMContext s = None \<longrightarrow>
      MakeIdentityFunction Tracked AnyTy s = Inl ContextAbsent) \<and>
   (deref (Types s) AnyTy = Some (PointerTy T AS) \<and> jl_LLVMContext s = Some ctx \<longrightarrow>
      (\<exists>F s'. MakeIdentityFunction Tracked AnyTy s = Inr (F, s') \<and>
         F \<noteq> 0 \<and> deref (Functions s') F \<noteq> None)) \<and>
   (\<forall>F s'. MakeIdentityFunction Tracked AnyTy s = Inr (F, s') \<longrightarrow>
      F \<noteq> 0 \<and> deref (Functions s') F \<noteq> None)"
proof -
  have ret: "\<exists>F s'. MakeIdentityFunction Tracked AnyTy s = Inr (F, s') \<and>
         F \<noteq> 0 \<and> deref (Functions s') F \<noteq> None"
    if D: "deref (Types s) AnyTy = Some (PointerTy T' AS')" and C: "jl_LLVMContext s = Some ctx'"
    for T' AS' ctx'
  proof -
    from MakeIdentityFunction_result [OF D C, of Tracked] obtain P FT PT extra where
      R: "MakeIdentityFunction Tracked AnyTy s =
         Inr (Suc (length (Functions s)),
            s\<lparr>Types := Types s @ extra,
              OwnedModules := insert (Suc (length (Modules s))) (OwnedModules s),
              Modules := Modules s @
                [\<lparr>ModuleID = ''shadow'', M_Context = ctx',
                  FunctionList = [Suc (length (Functions s))]\<rparr>],
              Functions := Functions s @
                [\<lparr>F_Name = ''identity'', F_Linkage = ExternalLinkage, F_Ty = FT, F_ValueTy = PT,
                  F_Parent = Suc (length (Modules s)),
                  F_Args = [Argument P (Suc (length (Functions s))) 0],
                  F_Blocks = [Suc (length (BasicBlocks s))]\<rparr>],
              BasicBlocks := BasicBlocks s @
                [\<lparr>BB_Name = ''top'', BB_Context = ctx', BB_Parent = Suc (length (Functions s)),
                  InstList = [ReturnInst (Some (ArgumentV (Argument P (Suc (length (Functions s))) 0)))]\<rparr>]\<rparr>)"
      and dP: "deref (Types s @ extra) P = Some (PointerTy T' Tracked)"
      and dF: "deref (Types s @ extra) FT = Some (FunctionTy P [P] False)"
      and dV: "deref (Types s @ extra) PT = Some (PointerTy FT 0)"
      and ex: "set extra \<subseteq> {PointerTy T' Tracked, FunctionTy P [P] False, PointerTy FT 0}"
      by (elim exE conjE)
    show ?thesis unfolding R by (simp add: deref_alloc_new)
  qed
  have all: "F \<noteq> 0 \<and> deref (Functions s') F \<noteq> None"
    if r: "MakeIdentityFunction Tracked AnyTy s = Inr (F, s')" for F s'
  proof -
    from MakeIdentityFunction_Inr_pre [OF r] obtain T' AS' ctx' where
      "deref (Types s) AnyTy = Some (PointerTy T' AS')" "jl_LLVMContext s = Some ctx'" by blast
    from ret [OF this] r show ?thesis by auto
  qed
  have null: "MakeIdentityFunction Tracked AnyTy s = Inl NullDereference" if "AnyTy = 0"
    using that by (simp add: MakeIdentityFunction_null)
  have noctx: "\<exists>e. MakeIdentityFunction Tracked AnyTy s = Inl e" if "jl_LLVMContext s = None"
  proof (cases "MakeIdentityFunction Tracked AnyTy s")
    case (Inl e)
    then show ?thesis by blast
  next
    case (Inr r)
    obtain F s' where "r = (F, s')" by (cases r)
    with Inr MakeIdentityFunction_Inr_pre [of Tracked AnyTy s F s'] that show ?thesis by auto
  qed
  show ?thesis
    using ret all null noctx MakeIdentityFunction_no_context [of s AnyTy T AS Tracked]
    by blast
qed

theorem MakeIdentityFunction_no_validation_witness:
  "MakeIdentityFunction 10 0 state_Int32 = Inl NullDereference \<and>
   jl_LLVMContext (state_Int32\<lparr>jl_LLVMContext := None\<rparr>) = None \<and>
   deref (Types (state_Int32\<lparr>jl_LLVMContext := None\<rparr>)) 2 = Some (PointerTy 1 0) \<and>
   MakeIdentityFunction 10 2 (state_Int32\<lparr>jl_LLVMContext := None\<rparr>) = Inl ContextAbsent \<and>
   deref (Types state_Int32) 2 = Some (PointerTy 1 0) \<and>
   jl_LLVMContext state_Int32 = Some (LLVMContext 0) \<and>
   (\<exists>F s'. MakeIdentityFunction 10 2 state_Int32 = Inr (F, s') \<and>
      F \<noteq> 0 \<and> deref (Functions s') F \<noteq> None)"
proof -
  have h1: "deref (Types state_Int32) 2 = Some (PointerTy 1 0)"
    by (simp add: state_Int32_def deref_def)
  have h2: "jl_LLVMContext state_Int32 = Some (LLVMContext 0)"
    by (simp add: state_Int32_def)
  have h3: "deref (Types (state_Int32\<lparr>jl_LLVMContext := None\<rparr>)) 2 = Some (PointerTy 1 0)"
    by (simp add: state_Int32_def deref_def)
  have h4: "jl_LLVMContext (state_Int32\<lparr>jl_LLVMContext := None\<rparr>) = None"
    by simp
  from MakeIdentityFunction_no_validation [of 0 state_Int32 10]
  have a: "MakeIdentityFunction 10 0 state_Int32 = Inl NullDereference" by simp
  from MakeIdentityFunction_no_validation [of 2 "state_Int32\<lparr>jl_LLVMContext := None\<rparr>" 10 1 0] h3 h4
  have b: "MakeIdentityFunction 10 2 (state_Int32\<lparr>jl_LLVMContext := None\<rparr>) = Inl ContextAbsent"
    by blast
  from MakeIdentityFunction_no_validation [of 2 state_Int32 10 1 0 "LLVMContext 0"] h1 h2
  have c: "\<exists>F s'. MakeIdentityFunction 10 2 state_Int32 = Inr (F, s') \<and>
      F \<noteq> 0 \<and> deref (Functions s') F \<noteq> None"
    by blast
  from a b c h1 h2 h3 h4 show ?thesis by (intro conjI)
qed

text \<open>
  Claim C10. The address space of the descriptor plays no part: two descriptors with
  the same pointee, whatever their address spaces (the Tracked one included), give
  the same result from the same state, and two calls in a row with them give two
  functions whose function type is one and the same handle, with the pointer to the
  pointee in the Tracked address space as parameter and result type.
\<close>

theorem MakeIdentityFunction_address_space_ignored:
  assumes D1: "deref (Types s) D1 = Some (PointerTy T AS1)"
    and D2: "deref (Types s) D2 = Some (PointerTy T AS2)"
    and C: "jl_LLVMContext s = Some ctx"
  shows "MakeIdentityFunction Tracked D1 s = MakeIdentityFunction Tracked D2 s \<and>
    (\<exists>F1 s1 F2 s2 f1 f2 P.
       MakeIdentityFunction Tracked D1 s = Inr (F1, s1) \<and>
       MakeIdentityFunction Tracked D2 s1 = Inr (F2, s2) \<and>
       deref (Functions s2) F1 = Some f1 \<and> deref (Functions s2) F2 = Some f2 \<and>
       F_Ty f1 = F_Ty f2 \<and>
       map Arg_Ty (F_Args f1) = [P] \<and> map Arg_Ty (F_Args f2) = [P] \<and>
       deref (Types s2) (F_Ty f1) = Some (FunctionTy P [P] False) \<and>
       deref (Types s2) P = Some (PointerTy T Tracked))"
proof -
  have E1: "getElementType D1 s = Inr T"
    using D1 deref_nonnull [OF D1] by (simp add: getElementType_def)
  have E2: "getElementType D2 s = Inr T"
    using D2 deref_nonnull [OF D2] by (simp add: getElementType_def)
  have same: "MakeIdentityFunction Tracked D1 s = MakeIdentityFunction Tracked D2 s"
    by (simp add: MakeIdentityFunction_def E1 E2)
  from MakeIdentityFunction_twice [OF D1 D2 C, of Tracked] obtain P FT PT extra sA sB where
    sA: "sA = s\<lparr>Types := Types s @ extra,
         OwnedModules := insert (Suc (length (Modules s))) (OwnedModules s),
         Modules := Modules s @
           [\<lparr>ModuleID = ''shadow'', M_Context = ctx,
             FunctionList = [Suc (length (Functions s))]\<rparr>],
         Functions := Functions s @
           [\<lparr>F_Name = ''identity'', F_Linkage = ExternalLinkage, F_Ty = FT, F_ValueTy = PT,
             F_Parent = Suc (length (Modules s)),
             F_Args = [Argument P (Suc (length (Functions s))) 0],
             F_Blocks = [Suc (length (BasicBlocks s))]\<rparr>],
         BasicBlocks := BasicBlocks s @
           [\<lparr>BB_Name = ''top'', BB_Context = ctx, BB_Parent = Suc (length (Functions s)),
             InstList = [ReturnInst (Some (ArgumentV (Argument P (Suc (length (Functions s))) 0)))]\<rparr>]\<rparr>"
    and sB: "sB = sA\<lparr>
         OwnedModules := insert (Suc (length (Modules sA))) (OwnedModules sA),
         Modules := Modules sA @
           [\<lparr>ModuleID = ''shadow'', M_Context = ctx,
             FunctionList = [Suc (length (Functions sA))]\<rparr>],
         Functions := Functions sA @
           [\<lparr>F_Name = ''identity'', F_Linkage = ExternalLinkage, F_Ty = FT, F_ValueTy = PT,
             F_Parent = Suc (length (Modules sA)),
             F_Args = [Argument P (Suc (length (Functions sA))) 0],
             F_Blocks = [Suc (length (BasicBlocks sA))]\<rparr>],
         BasicBlocks := BasicBlocks sA @
           [\<lparr>BB_Name = ''top'', BB_Context = ctx, BB_Parent = Suc (length (Functions sA)),
             InstList = [ReturnInst (Some (ArgumentV (Argument P (Suc (length (Functions sA))) 0)))]\<rparr>]\<rparr>"
    and run1: "MakeIdentityFunction Tracked D1 s = Inr (Suc (length (Functions s)), sA)"
    and run2: "MakeIdentityFunction Tracked D2 sA = Inr (Suc (length (Functions sA)), sB)"
    and dP: "deref (Types s @ extra) P = Some (PointerTy T Tracked)"
    and dF: "deref (Types s @ extra) FT = Some (FunctionTy P [P] False)"
    by (elim exE conjE)
  define F1 where "F1 = Suc (length (Functions s))"
  define F2 where "F2 = Suc (Suc (length (Functions s)))"
  define f1 where "f1 = \<lparr>F_Name = ''identity'', F_Linkage = ExternalLinkage, F_Ty = FT,
     F_ValueTy = PT, F_Parent = Suc (length (Modules s)), F_Args = [Argument P F1 0],
     F_Blocks = [Suc (length (BasicBlocks s))]\<rparr>"
  define f2 where "f2 = \<lparr>F_Name = ''identity'', F_Linkage = ExternalLinkage, F_Ty = FT,
     F_ValueTy = PT, F_Parent = Suc (Suc (length (Modules s))), F_Args = [Argument P F2 0],
     F_Blocks = [Suc (Suc (length (BasicBlocks s)))]\<rparr>"
  have lA: "length (Functions sA) = Suc (length (Functions s))" by (simp add: sA)
  have r1: "MakeIdentityFunction Tracked D1 s = Inr (F1, sA)" using run1 by (simp add: F1_def)
  have r2: "MakeIdentityFunction Tracked D2 sA = Inr (F2, sB)" using run2 by (simp add: F2_def lA)
  have FB: "Functions sB = Functions s @ [f1, f2]" by (simp add: sB sA f1_def f2_def F1_def F2_def)
  have TB: "Types sB = Types s @ extra" by (simp add: sB sA)
  have g1: "deref (Functions sB) F1 = Some f1" by (simp add: FB F1_def deref_def nth_append)
  have g2: "deref (Functions sB) F2 = Some f2" by (simp add: FB F2_def deref_def nth_append)
  have ty: "F_Ty f1 = F_Ty f2" by (simp add: f1_def f2_def)
  have a1: "map Arg_Ty (F_Args f1) = [P]" and a2: "map Arg_Ty (F_Args f2) = [P]"
    by (simp_all add: f1_def f2_def)
  have tF: "deref (Types sB) (F_Ty f1) = Some (FunctionTy P [P] False)"
    using dF by (simp add: TB f1_def)
  have tP: "deref (Types sB) P = Some (PointerTy T Tracked)"
    using dP by (simp add: TB)
  have "\<exists>F1 s1 F2 s2 f1 f2 P.
       MakeIdentityFunction Tracked D1 s = Inr (F1, s1) \<and>
       MakeIdentityFunction Tracked D2 s1 = Inr (F2, s2) \<and>
       deref (Functions s2) F1 = Some f1 \<and> deref (Functions s2) F2 = Some f2 \<and>
       F_Ty f1 = F_Ty f2 \<and>
       map Arg_Ty (F_Args f1) = [P] \<and> map Arg_Ty (F_Args f2) = [P] \<and>
       deref (Types s2) (F_Ty f1) = Some (FunctionTy P [P] False) \<and>
       deref (Types s2) P = Some (PointerTy T Tracked)"
    by (intro exI conjI) (rule r1 r2 g1 g2 ty a1 a2 tF tP)+
  with same show ?thesis by (rule conjI)
qed

theorem MakeIdentityFunction_address_space_ignored_witness:
  "deref (Types state_Int32) 2 = Some (PointerTy 1 0) \<and>
   deref (Types state_Int32) 3 = Some (PointerTy 1 10) \<and>
   jl_LLVMContext state_Int32 = Some (LLVMContext 0) \<and>
   MakeIdentityFunction 10 2 state_Int32 = MakeIdentityFunction 10 3 state_Int32 \<and>
    (\<exists>F1 s1 F2 s2 f1 f2 P.
       MakeIdentityFunction 10 2 state_Int32 = Inr (F1, s1) \<and>
       MakeIdentityFunction 10 3 s1 = Inr (F2, s2) \<and>
       deref (Functions s2) F1 = Some f1 \<and> deref (Functions s2) F2 = Some f2 \<and>
       F_Ty f1 = F_Ty f2 \<and>
       map Arg_Ty (F_Args f1) = [P] \<and> map Arg_Ty (F_Args f2) = [P] \<and>
       deref (Types s2) (F_Ty f1) = Some (FunctionTy P [P] False) \<and>
       deref (Types s2) P = Some (PointerTy 1 10))"
proof -
  have h1: "deref (Types state_Int32) 2 = Some (PointerTy 1 0)"
    by (simp add: state_Int32_def deref_def)
  have h2: "deref (Types state_Int32) 3 = Some (PointerTy 1 10)"
    by (simp add: state_Int32_def deref_def)
  have h3: "jl_LLVMContext state_Int32 = Some (LLVMContext 0)"
    by (simp add: state_Int32_def)
  note w = MakeIdentityFunction_address_space_ignored [OF h1 h2 h3, of 10]
  show ?thesis by (intro conjI h1 h2 h3 conjunct1 [OF w] conjunct2 [OF w])
qed

end
